theory Spec2Isabelle
  imports Complex_Main "HOL-Library.Option_ord"
begin


section \<open>Order import: data model\<close>

text \<open>
  A JavaScript \<open>Date\<close> holds a time value: an integral number of milliseconds since
  the epoch, or NaN (an Invalid Date). \<open>None\<close> is the Invalid Date.
\<close>

type_synonym jsdate = "int option"

text \<open>
  The fields an order carries both as a candidate of an import batch and as a
  persisted record. A candidate (\<open>Partial<Order>\<close> in the source, cast from the
  request body) still has its date as the ISO string the client sent; a persisted order
  has a \<open>Date\<close>. Candidates are taken with every field present. Strings are compared
  with \<open>===\<close>, which is equality; the numeric fields are JavaScript numbers,
  modelled as reals (no NaN, which JSON cannot carry).
\<close>

record 'd orderData =
  accountId :: string
  currency :: string
  dataSource :: string
  date :: 'd
  fee :: real
  quantity :: real
  symbol :: string
  type :: string
  unitPrice :: real

type_synonym candidate = "string orderData"

record order = "jsdate orderData" +
  userId :: string

text \<open>
  The three errors of the validation. The source throws \<open>Error\<close> objects whose
  messages are \<open>Too many transactions\<close>, \<open>orders.<index> is a duplicate
  transaction\<close> and \<open>orders.<index>.symbol ("<symbol>") is not valid for the
  specified data source ("<dataSource>")\<close>; each constructor carries the values its
  message interpolates, in the message's order.
\<close>

datatype import_error =
  BatchTooLarge
  | DuplicateOrder nat
  | InvalidSymbol nat string string

text \<open>The calls the import service makes on its collaborators, in the order made.\<close>

datatype call =
  OrdersRead string
  | DataProviderGet string string
  | CreateOrder order

text \<open>
  The state the import service works on: the order table of the persistence layer (all
  users, in insertion order) and the trace of collaborator calls, oldest first.
\<close>

record state =
  persisted :: "order list"
  trace :: "call list"

text \<open>
  What the service is given from outside this repository: \<open>parseISO\<close> of date-fns
  (an unparseable string gives the Invalid Date) and the data provider's answer to a
  lookup of (dataSource, symbol) pairs, a mapping keyed by symbol.
\<close>

record 'v services =
  parseISO :: "string \<Rightarrow> jsdate"
  dataProviderService_get :: "(string \<times> string) list \<Rightarrow> (string \<rightharpoonup> 'v)"

section \<open>Order import: operations\<close>

definition MAX_ORDERS_TO_IMPORT :: nat where
  "MAX_ORDERS_TO_IMPORT = 20"

text \<open>
  \<open>isSameDay\<close> of date-fns: the two dates have the same start of day. The process
  time zone is taken as UTC, so a day is 86400000 ms. The start of day of an Invalid Date
  is invalid, and NaN is equal to nothing, so an Invalid Date is on no day.
\<close>

definition startOfDay :: "jsdate \<Rightarrow> jsdate" where
  "startOfDay d = map_option (\<lambda>t. t - t mod 86400000) d"

definition isSameDay :: "jsdate \<Rightarrow> jsdate \<Rightarrow> bool" where
  "isSameDay dateLeft dateRight =
     (case (startOfDay dateLeft, startOfDay dateRight) of
        (Some l, Some r) \<Rightarrow> l = r
      | _ \<Rightarrow> False)"

text \<open>
  Modelled from the spec: \<open>OrderService.orders\<close> is not among the sources. The spec
  has it as "list orders for user, sorted by date desc"; the import service calls it with
  \<open>orderBy: { date: 'desc' }, where: { userId }\<close>.
\<close>

definition orderService_orders :: "string \<Rightarrow> order list \<Rightarrow> order list" where
  "orderService_orders uid table = rev (sort_key date (filter (\<lambda>order. userId order = uid) table))"

text \<open>
  Modelled from the spec: \<open>OrderService.createOrder\<close> is not among the sources. The
  spec has it as "create order linked to account+user": one record is added to the order
  table.
\<close>

definition orderService_createOrder :: "order \<Rightarrow> state \<Rightarrow> state" where
  "orderService_createOrder data st =
     st\<lparr>persisted := persisted st @ [data], trace := trace st @ [CreateOrder data]\<rparr>"

text \<open>The callback of \<open>existingOrders.find\<close> in \<open>validateOrders\<close>.\<close>

definition isDuplicateOf :: "'v services \<Rightarrow> candidate \<Rightarrow> order \<Rightarrow> bool" where
  "isDuplicateOf sv c order \<longleftrightarrow>
     currency order = currency c \<and>
     dataSource order = dataSource c \<and>
     isSameDay (date order) (parseISO sv (date c)) \<and>
     fee order = fee c \<and>
     quantity order = quantity c \<and>
     symbol order = symbol c \<and>
     type order = type c \<and>
     unitPrice order = unitPrice c"

text \<open>
  \<open>result[symbol] === undefined\<close>. The answer of the data provider is a plain
  object keyed by symbol. Reading a property of a plain object gives the object's own
  entry and, where it has none, the member of that name inherited from
  \<open>Object.prototype\<close>; so the read is \<open>undefined\<close> only for a key that has
  no entry and is not the name of an inherited member.
\<close>

definition Object_prototype_properties :: "string list" where
  "Object_prototype_properties =
     [''constructor'', ''__defineGetter__'', ''__defineSetter__'', ''hasOwnProperty'',
      ''__lookupGetter__'', ''__lookupSetter__'', ''isPrototypeOf'',
      ''propertyIsEnumerable'', ''toString'', ''valueOf'', ''__proto__'',
      ''toLocaleString'']"

definition propertyIsUndefined :: "(string \<rightharpoonup> 'v) \<Rightarrow> string \<Rightarrow> bool" where
  "propertyIsUndefined obj key \<longleftrightarrow> obj key = None \<and> key \<notin> set Object_prototype_properties"

text \<open>
  The loop of \<open>validateOrders\<close> over \<open>orders.entries()\<close>: for each candidate the
  duplicate check against the orders read up front, then the data-provider lookup. A
  throw ends the loop with the error.
\<close>

fun validateLoop ::
  "'v services \<Rightarrow> order list \<Rightarrow> nat \<Rightarrow> candidate list \<Rightarrow> state \<Rightarrow> (import_error + unit) \<times> state"
where
  "validateLoop sv existingOrders index [] st = (Inr (), st)"
| "validateLoop sv existingOrders index (c # cs) st =
     (if find (isDuplicateOf sv c) existingOrders \<noteq> None then (Inl (DuplicateOrder index), st)
      else
        let st' = st\<lparr>trace := trace st @ [DataProviderGet (dataSource c) (symbol c)]\<rparr>;
            result = dataProviderService_get sv [(dataSource c, symbol c)]
        in if propertyIsUndefined result (symbol c)
           then (Inl (InvalidSymbol index (symbol c) (dataSource c)), st')
           else validateLoop sv existingOrders (Suc index) cs st')"

definition validateOrders ::
  "'v services \<Rightarrow> candidate list \<Rightarrow> string \<Rightarrow> state \<Rightarrow> (import_error + unit) \<times> state"
where
  "validateOrders sv orders uid st =
     (if length orders > MAX_ORDERS_TO_IMPORT then (Inl BatchTooLarge, st)
      else
        let existingOrders = orderService_orders uid (persisted st);
            st' = st\<lparr>trace := trace st @ [OrdersRead uid]\<rparr>
        in validateLoop sv existingOrders 0 orders st')"

text \<open>
  The argument of \<open>createOrder\<close> in \<open>import\<close>: the candidate's fields, its date
  parsed, the account connected by (userId, accountId) and the user by userId.
\<close>

definition createOrderData :: "'v services \<Rightarrow> string \<Rightarrow> candidate \<Rightarrow> order" where
  "createOrderData sv uid c =
     \<lparr>accountId = accountId c, currency = currency c, dataSource = dataSource c,
      date = parseISO sv (date c), fee = fee c, quantity = quantity c, symbol = symbol c,
      type = type c, unitPrice = unitPrice c, userId = uid\<rparr>"

fun createLoop :: "'v services \<Rightarrow> string \<Rightarrow> candidate list \<Rightarrow> state \<Rightarrow> state" where
  "createLoop sv uid [] st = st"
| "createLoop sv uid (c # cs) st =
     createLoop sv uid cs (orderService_createOrder (createOrderData sv uid c) st)"

definition import ::
  "'v services \<Rightarrow> candidate list \<Rightarrow> string \<Rightarrow> state \<Rightarrow> (import_error + unit) \<times> state"
where
  "import sv orders uid st =
     (case validateOrders sv orders uid st of
        (Inl e, st') \<Rightarrow> (Inl e, st')
      | (Inr u, st') \<Rightarrow> (Inr (), createLoop sv uid orders st'))"

section \<open>Info service: data model\<close>

text \<open>
  Modelled from the spec: \<open>ConfigurationService\<close> is not among the sources. The spec
  has it as a "configuration reader exposing typed flag/value lookup by name"; the record
  has one field for each name the info service reads.
\<close>

record configuration =
  ENABLE_FEATURE_BLOG :: bool
  ENABLE_FEATURE_IMPORT :: bool
  ENABLE_FEATURE_SOCIAL_LOGIN :: bool
  ENABLE_FEATURE_STATISTICS :: bool
  ENABLE_FEATURE_SUBSCRIPTION :: bool
  STRIPE_PUBLIC_KEY :: string

text \<open>
  Modelled from the spec: the \<open>permissions\<close> table is not among the sources. The spec
  has "for each enabled flag, appends a corresponding permission tag"; the five tags the
  info service names are taken as five different values.
\<close>

datatype permission =
  enableBlog | enableImport | enableSocialLogin | enableStatistics | enableSubscription

text \<open>
  The statistics object, with the fields of the object literal in \<open>getStatistics\<close>.
  The database counts are numbers; a GitHub counter is a number or \<open>undefined\<close>
  (\<open>None\<close>).
\<close>

record statistics =
  activeUsers1d :: int
  activeUsers7d :: int
  activeUsers30d :: int
  gitHubContributors :: "int option"
  gitHubStargazers :: "int option"
  newUsers30d :: int

text \<open>
  What \<open>JSON.parse\<close> of a cached string gives where a \<open>Statistics\<close> is expected:
  it throws a SyntaxError, or it returns a falsy value (\<open>null\<close>, \<open>false\<close>,
  \<open>0\<close>, the empty string), or it returns a truthy value, which the source types as
  \<open>Statistics\<close>.
\<close>

datatype 'a parsed = Throws | Falsy | Truthy 'a

text \<open>The outcome of an HTTP request made with \<open>bent\<close>: rejected with an error, or a body.\<close>

datatype 'a response = Rejected string | Resolved 'a

datatype exception = SyntaxError

text \<open>The calls the info service makes on the database, the cache and GitHub.\<close>

datatype info_call =
  PlatformFindMany
  | CacheGet string
  | CacheSet string string
  | UserCountActive int
  | UserCountNew int
  | GitHubGet string
  | PropertyFindUnique string

text \<open>
  Everything outside the info service, as one record. Read only: the answers of the
  database (\<open>platformTable\<close> is the result of \<open>platform.findMany\<close> ordered by
  name, as (id, name) pairs; \<open>propertyTable\<close> maps a property key to its value;
  \<open>activeUserCount\<close> and \<open>newUserCount\<close> are the two \<open>user.count\<close> queries
  as functions of the number of days), the two GitHub responses (the contributors array
  or a null body; the repository object as a map of its numeric fields, or a null body),
  the other services' getters, the JWT signer applied to the id of the payload, and
  \<open>JSON.parse\<close> and \<open>JSON.stringify\<close> at the two types they are used at
  (\<open>JSON_parse_subscription\<close> gives \<open>None\<close> when it throws). Written: the cache
  (modelled from the spec: \<open>RedisCacheService\<close> is not among the sources; the spec has
  it as "get/set by string key with string values"), the log of \<open>Logger.error\<close> and
  the trace of calls, oldest first.
\<close>

record 's world =
  cache :: "string \<rightharpoonup> string"
  platformTable :: "(string \<times> string) list"
  propertyTable :: "string \<rightharpoonup> string"
  activeUserCount :: "int \<Rightarrow> int"
  newUserCount :: "int \<Rightarrow> int"
  gitHubContributorsResponse :: "string list option response"
  gitHubRepositoryResponse :: "(string \<rightharpoonup> int) option response"
  exchangeRateDataService_getCurrencies :: "string list"
  dataProviderService_getPrimaryDataSource :: string
  dataGatheringService_getLastDataGathering :: "int option"
  jwtService_sign :: "string \<Rightarrow> string"
  JSON_parse_statistics :: "string \<Rightarrow> statistics parsed"
  JSON_stringify :: "statistics \<Rightarrow> string"
  JSON_parse_subscription :: "string \<Rightarrow> 's option"
  errorLog :: "string list"
  calls :: "info_call list"

text \<open>
  The object \<open>get\<close> returns. An optional field that is left out or \<open>undefined\<close>
  is \<open>None\<close>; \<open>lastDataGathering\<close> is \<open>None\<close> for the \<open>null\<close> that
  \<open>getLastDataGathering\<close> puts in place of a missing date.
\<close>

record 's infoItem =
  stripePublicKey :: "string option"
  globalPermissions :: "permission list"
  platforms :: "(string \<times> string) list"
  currencies :: "string list"
  demoAuthToken :: string
  lastDataGathering :: "int option"
  primaryDataSource :: string
  statistics :: "statistics option"
  subscriptions :: "'s list option"

section \<open>Info service: operations\<close>

definition DEMO_USER_ID :: string where
  "DEMO_USER_ID = ''9b112b4d-3b7d-4bad-9bdd-3b0f7b4dac2f''"

definition CACHE_KEY_STATISTICS :: string where
  "CACHE_KEY_STATISTICS = ''STATISTICS''"

text \<open>The two addresses given to \<open>bent\<close>.\<close>

definition contributorsUrl :: string where
  "contributorsUrl = ''https://api.github.com/repos/ghostfolio/ghostfolio/contributors''"

definition repositoryUrl :: string where
  "repositoryUrl = ''https://api.github.com/repos/ghostfolio/ghostfolio''"

definition called :: "info_call \<Rightarrow> 's world \<Rightarrow> 's world" where
  "called c w = w\<lparr>calls := calls w @ [c]\<rparr>"

definition Logger_error :: "string \<Rightarrow> 's world \<Rightarrow> 's world" where
  "Logger_error e w = w\<lparr>errorLog := errorLog w @ [e]\<rparr>"

definition redisCacheService_get :: "string \<Rightarrow> 's world \<Rightarrow> string option \<times> 's world" where
  "redisCacheService_get key w = (cache w key, called (CacheGet key) w)"

definition redisCacheService_set :: "string \<Rightarrow> string \<Rightarrow> 's world \<Rightarrow> 's world" where
  "redisCacheService_set key v w = called (CacheSet key v) (w\<lparr>cache := (cache w)(key \<mapsto> v)\<rparr>)"

definition countActiveUsers :: "int \<Rightarrow> 's world \<Rightarrow> int \<times> 's world" where
  "countActiveUsers aDays w = (activeUserCount w aDays, called (UserCountActive aDays) w)"

definition countNewUsers :: "int \<Rightarrow> 's world \<Rightarrow> int \<times> 's world" where
  "countNewUsers aDays w = (newUserCount w aDays, called (UserCountNew aDays) w)"

text \<open>
  \<open>contributors?.length\<close> is \<open>undefined\<close> for a null body. A rejected request is
  caught, logged and turned into \<open>undefined\<close>.
\<close>

definition countGitHubContributors :: "'s world \<Rightarrow> int option \<times> 's world" where
  "countGitHubContributors w =
     (let w = called (GitHubGet contributorsUrl) w
      in case gitHubContributorsResponse w of
           Resolved contributors \<Rightarrow> (map_option (\<lambda>cs. int (length cs)) contributors, w)
         | Rejected error \<Rightarrow> (None, Logger_error error w))"

text \<open>
  Destructuring \<open>{ stargazers_count }\<close> from a null body throws a TypeError inside
  the \<open>try\<close>, which is caught like a rejected request; a body without the field
  gives \<open>undefined\<close>.
\<close>

definition countGitHubStargazers :: "'s world \<Rightarrow> int option \<times> 's world" where
  "countGitHubStargazers w =
     (let w = called (GitHubGet repositoryUrl) w
      in case gitHubRepositoryResponse w of
           Resolved (Some body) \<Rightarrow> (body ''stargazers_count'', w)
         | Resolved None \<Rightarrow> (None, Logger_error ''TypeError'' w)
         | Rejected error \<Rightarrow> (None, Logger_error error w))"

definition getDemoAuthToken :: "'s world \<Rightarrow> string" where
  "getDemoAuthToken w = jwtService_sign w DEMO_USER_ID"

definition getLastDataGathering :: "'s world \<Rightarrow> int option" where
  "getLastDataGathering w = dataGatheringService_getLastDataGathering w"

text \<open>
  \<open>getStatistics\<close>. A cache miss gives \<open>null\<close>, which \<open>JSON.parse\<close> turns
  into \<open>null\<close>: falsy. The \<open>try\<close> block returns only a truthy parsed value; a
  throw is caught by the empty \<open>catch\<close> and a falsy value falls through, both to the
  recomputation.
\<close>

definition getStatistics :: "configuration \<Rightarrow> 's world \<Rightarrow> statistics option \<times> 's world" where
  "getStatistics conf w =
     (if \<not> ENABLE_FEATURE_STATISTICS conf then (None, w)
      else
        let (cached, w) = redisCacheService_get CACHE_KEY_STATISTICS w
        in case (case cached of None \<Rightarrow> Falsy | Some v \<Rightarrow> JSON_parse_statistics w v) of
             Truthy parsedStatistics \<Rightarrow> (Some parsedStatistics, w)
           | _ \<Rightarrow>
             let (activeUsers1d, w) = countActiveUsers 1 w;
                 (activeUsers7d, w) = countActiveUsers 7 w;
                 (activeUsers30d, w) = countActiveUsers 30 w;
                 (newUsers30d, w) = countNewUsers 30 w;
                 (gitHubContributors, w) = countGitHubContributors w;
                 (gitHubStargazers, w) = countGitHubStargazers w;
                 statistics =
                   \<lparr>activeUsers1d = activeUsers1d, activeUsers7d = activeUsers7d,
                    activeUsers30d = activeUsers30d, gitHubContributors = gitHubContributors,
                    gitHubStargazers = gitHubStargazers, newUsers30d = newUsers30d\<rparr>;
                 w = redisCacheService_set CACHE_KEY_STATISTICS (JSON_stringify w statistics) w
             in (Some statistics, w))"

text \<open>
  \<open>getSubscriptions\<close>. \<open>JSON.parse\<close> of the record's value is not inside a
  \<open>try\<close>: when it throws, the call fails with the SyntaxError.
\<close>

definition getSubscriptions ::
  "configuration \<Rightarrow> 's world \<Rightarrow> (exception + 's list option) \<times> 's world"
where
  "getSubscriptions conf w =
     (if \<not> ENABLE_FEATURE_SUBSCRIPTION conf then (Inr None, w)
      else
        let w = called (PropertyFindUnique ''STRIPE_CONFIG'') w
        in case propertyTable w ''STRIPE_CONFIG'' of
             Some v \<Rightarrow>
               (case JSON_parse_subscription w v of
                  Some subscription \<Rightarrow> (Inr (Some [subscription]), w)
                | None \<Rightarrow> (Inl SyntaxError, w))
           | None \<Rightarrow> (Inr (Some []), w))"

definition get :: "configuration \<Rightarrow> 's world \<Rightarrow> (exception + 's infoItem) \<times> 's world" where
  "get conf w =
     (let w = called PlatformFindMany w;
          platforms = platformTable w;
          globalPermissions = [];
          globalPermissions =
            (if ENABLE_FEATURE_BLOG conf then globalPermissions @ [enableBlog]
             else globalPermissions);
          globalPermissions =
            (if ENABLE_FEATURE_IMPORT conf then globalPermissions @ [enableImport]
             else globalPermissions);
          globalPermissions =
            (if ENABLE_FEATURE_SOCIAL_LOGIN conf then globalPermissions @ [enableSocialLogin]
             else globalPermissions);
          globalPermissions =
            (if ENABLE_FEATURE_STATISTICS conf then globalPermissions @ [enableStatistics]
             else globalPermissions);
          globalPermissions =
            (if ENABLE_FEATURE_SUBSCRIPTION conf then globalPermissions @ [enableSubscription]
             else globalPermissions);
          stripePublicKey =
            (if ENABLE_FEATURE_SUBSCRIPTION conf then Some (STRIPE_PUBLIC_KEY conf) else None);
          currencies = exchangeRateDataService_getCurrencies w;
          demoAuthToken = getDemoAuthToken w;
          lastDataGathering = getLastDataGathering w;
          primaryDataSource = dataProviderService_getPrimaryDataSource w;
          (statistics, w) = getStatistics conf w
      in case getSubscriptions conf w of
           (Inl e, w) \<Rightarrow> (Inl e, w)
         | (Inr subscriptionList, w) \<Rightarrow>
             (Inr \<lparr>stripePublicKey = stripePublicKey, globalPermissions = globalPermissions,
                   platforms = platforms, currencies = currencies,
                   demoAuthToken = demoAuthToken, lastDataGathering = lastDataGathering,
                   primaryDataSource = primaryDataSource, statistics = statistics,
                   subscriptions = subscriptionList\<rparr>, w))"

section \<open>Notions used to state the properties\<close>

subsection \<open>Order import\<close>

text \<open>
  The calendar day of a date (days since the epoch, in UTC), and the dedup tuple of the
  spec: two orders share it when they agree on currency, data source, calendar day, fee,
  quantity, symbol, type and unit price. An Invalid Date is on no calendar day.
\<close>

definition calendarDay :: "jsdate \<Rightarrow> int option" where
  "calendarDay d = map_option (\<lambda>t. t div 86400000) d"

definition sameDedupTuple :: "order \<Rightarrow> order \<Rightarrow> bool" where
  "sameDedupTuple a b \<longleftrightarrow>
     currency a = currency b \<and>
     dataSource a = dataSource b \<and>
     (case (calendarDay (date a), calendarDay (date b)) of
        (Some x, Some y) \<Rightarrow> x = y
      | _ \<Rightarrow> False) \<and>
     fee a = fee b \<and>
     quantity a = quantity b \<and>
     symbol a = symbol b \<and>
     type a = type b \<and>
     unitPrice a = unitPrice b"

text \<open>
  A candidate duplicates an existing order when the record that would be created for it
  shares the dedup tuple with a persisted order of the same user.
\<close>

definition duplicatesExisting :: "'v services \<Rightarrow> string \<Rightarrow> order list \<Rightarrow> candidate \<Rightarrow> bool" where
  "duplicatesExisting sv uid table c \<longleftrightarrow>
     (\<exists>order\<in>set table. userId order = uid \<and> sameDedupTuple order (createOrderData sv uid c))"

text \<open>
  The data provider's answer to the lookup of the candidate's (dataSource, symbol) has an
  entry under the symbol.
\<close>

definition symbolKnown :: "'v services \<Rightarrow> candidate \<Rightarrow> bool" where
  "symbolKnown sv c \<longleftrightarrow> dataProviderService_get sv [(dataSource c, symbol c)] (symbol c) \<noteq> None"

text \<open>
  The symbol check of the code lets a candidate through: the read of the answer under
  the candidate's symbol is not \<open>undefined\<close>.
\<close>

definition symbolAccepted :: "'v services \<Rightarrow> candidate \<Rightarrow> bool" where
  "symbolAccepted sv c \<longleftrightarrow>
     \<not> propertyIsUndefined (dataProviderService_get sv [(dataSource c, symbol c)]) (symbol c)"

text \<open>
  The data-provider lookups of a run of candidates, and what one round of the validation
  loop asks of a candidate.
\<close>

definition lookups :: "candidate list \<Rightarrow> call list" where
  "lookups cs = map (\<lambda>c. DataProviderGet (dataSource c) (symbol c)) cs"

definition passes :: "'v services \<Rightarrow> order list \<Rightarrow> candidate \<Rightarrow> bool" where
  "passes sv existingOrders c \<longleftrightarrow> find (isDuplicateOf sv c) existingOrders = None \<and> symbolAccepted sv c"

text \<open>
  The invariant of the spec: within one user's orders, no two persisted orders share the
  dedup tuple.
\<close>

fun dedupInvariant :: "order list \<Rightarrow> bool" where
  "dedupInvariant [] = True"
| "dedupInvariant (a # rest) =
     ((\<forall>b\<in>set rest. \<not> (userId b = userId a \<and> sameDedupTuple a b)) \<and> dedupInvariant rest)"

subsection \<open>Info service\<close>

text \<open>
  The statistics the recomputation builds, the errors it logs and the calls it makes.
\<close>

definition recomputed :: "'s world \<Rightarrow> statistics" where
  "recomputed w =
     \<lparr>activeUsers1d = activeUserCount w 1, activeUsers7d = activeUserCount w 7,
      activeUsers30d = activeUserCount w 30,
      gitHubContributors = fst (countGitHubContributors w),
      gitHubStargazers = fst (countGitHubStargazers w),
      newUsers30d = newUserCount w 30\<rparr>"

definition gitHubErrors :: "'s world \<Rightarrow> string list" where
  "gitHubErrors w =
     (case gitHubContributorsResponse w of Rejected e \<Rightarrow> [e] | Resolved b \<Rightarrow> []) @
     (case gitHubRepositoryResponse w of
        Rejected e \<Rightarrow> [e] | Resolved None \<Rightarrow> [''TypeError''] | Resolved (Some b) \<Rightarrow> [])"

definition recomputeCalls :: "'s world \<Rightarrow> info_call list" where
  "recomputeCalls w =
     [CacheGet CACHE_KEY_STATISTICS, UserCountActive 1, UserCountActive 7, UserCountActive 30,
      UserCountNew 30, GitHubGet contributorsUrl, GitHubGet repositoryUrl,
      CacheSet CACHE_KEY_STATISTICS (JSON_stringify w (recomputed w))]"

text \<open>
  The five feature flags, the value of a flag in a configuration, the configuration with
  one flag switched, the permission tag of a flag, and the permission list as a function
  of the configuration.
\<close>

datatype flag = Blog | Import | SocialLogin | Statistics | Subscription

fun flagValue :: "flag \<Rightarrow> configuration \<Rightarrow> bool" where
  "flagValue Blog conf = ENABLE_FEATURE_BLOG conf"
| "flagValue Import conf = ENABLE_FEATURE_IMPORT conf"
| "flagValue SocialLogin conf = ENABLE_FEATURE_SOCIAL_LOGIN conf"
| "flagValue Statistics conf = ENABLE_FEATURE_STATISTICS conf"
| "flagValue Subscription conf = ENABLE_FEATURE_SUBSCRIPTION conf"

fun toggle :: "flag \<Rightarrow> configuration \<Rightarrow> configuration" where
  "toggle Blog conf = conf\<lparr>ENABLE_FEATURE_BLOG := \<not> ENABLE_FEATURE_BLOG conf\<rparr>"
| "toggle Import conf = conf\<lparr>ENABLE_FEATURE_IMPORT := \<not> ENABLE_FEATURE_IMPORT conf\<rparr>"
| "toggle SocialLogin conf = conf\<lparr>ENABLE_FEATURE_SOCIAL_LOGIN := \<not> ENABLE_FEATURE_SOCIAL_LOGIN conf\<rparr>"
| "toggle Statistics conf = conf\<lparr>ENABLE_FEATURE_STATISTICS := \<not> ENABLE_FEATURE_STATISTICS conf\<rparr>"
| "toggle Subscription conf = conf\<lparr>ENABLE_FEATURE_SUBSCRIPTION := \<not> ENABLE_FEATURE_SUBSCRIPTION conf\<rparr>"

fun permissionOf :: "flag \<Rightarrow> permission" where
  "permissionOf Blog = enableBlog"
| "permissionOf Import = enableImport"
| "permissionOf SocialLogin = enableSocialLogin"
| "permissionOf Statistics = enableStatistics"
| "permissionOf Subscription = enableSubscription"

definition permissionsOf :: "configuration \<Rightarrow> permission list" where
  "permissionsOf conf =
     (if ENABLE_FEATURE_BLOG conf then [enableBlog] else []) @
     (if ENABLE_FEATURE_IMPORT conf then [enableImport] else []) @
     (if ENABLE_FEATURE_SOCIAL_LOGIN conf then [enableSocialLogin] else []) @
     (if ENABLE_FEATURE_STATISTICS conf then [enableStatistics] else []) @
     (if ENABLE_FEATURE_SUBSCRIPTION conf then [enableSubscription] else [])"

section \<open>Example data\<close>

definition example_services :: "string services" where
  "example_services =
     \<lparr>parseISO = (\<lambda>s. if s = ''2021-07-01'' then Some 1625097600000
                      else if s = ''2021-07-02'' then Some 1625184000000
                      else None),
      dataProviderService_get = (\<lambda>items.
        map_of (filter (\<lambda>(sym, name). sym \<in> snd ` set items)
          [(''AAPL'', ''Apple Inc.''), (''MSFT'', ''Microsoft Corporation'')]))\<rparr>"

definition example_candidate :: candidate where
  "example_candidate =
     \<lparr>accountId = ''a1'', currency = ''USD'', dataSource = ''YAHOO'', date = ''2021-07-01'',
      fee = 1.5, quantity = 2, symbol = ''AAPL'', type = ''BUY'', unitPrice = 130\<rparr>"

definition example_unknown :: candidate where
  "example_unknown = example_candidate\<lparr>symbol := ''NOPE''\<rparr>"

text \<open>An order of user \<open>u1\<close>, made at 15:30 UTC on the day of \<open>example_candidate\<close>.\<close>

definition example_existing :: order where
  "example_existing =
     \<lparr>accountId = ''a2'', currency = ''USD'', dataSource = ''YAHOO'', date = Some 1625153400000,
      fee = 1.5, quantity = 2, symbol = ''AAPL'', type = ''BUY'', unitPrice = 130,
      userId = ''u1''\<rparr>"

definition example_empty :: state where
  "example_empty = \<lparr>persisted = [], trace = []\<rparr>"

definition example_state :: state where
  "example_state = \<lparr>persisted = [example_existing], trace = []\<rparr>"

definition example_conf :: configuration where
  "example_conf =
     \<lparr>ENABLE_FEATURE_BLOG = True, ENABLE_FEATURE_IMPORT = False,
      ENABLE_FEATURE_SOCIAL_LOGIN = True, ENABLE_FEATURE_STATISTICS = True,
      ENABLE_FEATURE_SUBSCRIPTION = True, STRIPE_PUBLIC_KEY = ''pk_test''\<rparr>"

definition example_statistics :: statistics where
  "example_statistics =
     \<lparr>activeUsers1d = 3, activeUsers7d = 8, activeUsers30d = 21, gitHubContributors = Some 2,
      gitHubStargazers = None, newUsers30d = 5\<rparr>"

text \<open>
  A world with an empty cache in which the request for the repository is rejected. Its
  \<open>JSON.stringify\<close> writes \<open>example_statistics\<close> as \<open>S\<close>, and its
  \<open>JSON.parse\<close> reads \<open>S\<close> back, reads \<open>null\<close> as null and throws on
  everything else.
\<close>

definition example_world :: "string world" where
  "example_world =
     \<lparr>cache = Map.empty,
      platformTable = [(''p1'', ''Degiro''), (''p2'', ''Swissquote'')],
      propertyTable = [''STRIPE_CONFIG'' \<mapsto> ''{}''],
      activeUserCount = (\<lambda>aDays. if aDays = 1 then 3 else if aDays = 7 then 8 else 21),
      newUserCount = (\<lambda>aDays. 5),
      gitHubContributorsResponse = Resolved (Some [''alice'', ''bob'']),
      gitHubRepositoryResponse = Rejected ''timeout'',
      exchangeRateDataService_getCurrencies = [''CHF'', ''USD''],
      dataProviderService_getPrimaryDataSource = ''YAHOO'',
      dataGatheringService_getLastDataGathering = None,
      jwtService_sign = (\<lambda>id. ''signed'' @ id),
      JSON_parse_statistics =
        (\<lambda>v. if v = ''S'' then Truthy example_statistics
             else if v = ''null'' then Falsy else Throws),
      JSON_stringify = (\<lambda>s. if s = example_statistics then ''S'' else ''other''),
      JSON_parse_subscription = (\<lambda>v. if v = ''{}'' then Some ''plan'' else None),
      errorLog = [], calls = []\<rparr>"

lemmas example_defs =
  example_services_def example_candidate_def example_unknown_def example_existing_def
  example_empty_def example_state_def

lemmas example_info_defs =
  example_conf_def example_statistics_def example_world_def

section \<open>Order import: lemmas\<close>

lemma startOfDay_eq_iff:
  "(t - t mod 86400000 = u - u mod 86400000) \<longleftrightarrow> (t div 86400000 = u div (86400000::int))"
proof -
  have a: "t - t mod 86400000 = 86400000 * (t div 86400000)"
    by (simp add: minus_mod_eq_mult_div)
  have b: "u - u mod 86400000 = 86400000 * (u div 86400000)"
    by (simp add: minus_mod_eq_mult_div)
  show ?thesis unfolding a b by simp
qed

lemma isSameDay_calendarDay:
  "isSameDay l r \<longleftrightarrow> (case (calendarDay l, calendarDay r) of (Some x, Some y) \<Rightarrow> x = y | _ \<Rightarrow> False)"
  by (cases l; cases r) (simp_all add: isSameDay_def startOfDay_def calendarDay_def startOfDay_eq_iff)

lemma isDuplicateOf_sameDedupTuple:
  "isDuplicateOf sv c order \<longleftrightarrow> sameDedupTuple order (createOrderData sv uid c)"
  by (simp add: isDuplicateOf_def sameDedupTuple_def createOrderData_def isSameDay_calendarDay)

lemma find_orderService_orders:
  "find P (orderService_orders uid table) \<noteq> None \<longleftrightarrow> (\<exists>order\<in>set table. userId order = uid \<and> P order)"
  by (auto simp: orderService_orders_def find_None_iff)

lemma find_existing_duplicate:
  "find (isDuplicateOf sv c) (orderService_orders uid table) \<noteq> None \<longleftrightarrow> duplicatesExisting sv uid table c"
  unfolding find_orderService_orders duplicatesExisting_def
  by (simp add: isDuplicateOf_sameDedupTuple [of sv c _ uid])

lemma symbolKnown_accepted: "symbolKnown sv c \<Longrightarrow> symbolAccepted sv c"
  by (simp add: symbolKnown_def symbolAccepted_def propertyIsUndefined_def)

lemma passes_iff:
  "passes sv (orderService_orders uid table) c \<longleftrightarrow>
   \<not> duplicatesExisting sv uid table c \<and> symbolAccepted sv c"
  unfolding passes_def find_existing_duplicate [symmetric] by simp

lemma validateLoop_Cons_pass:
  "passes sv ex c \<Longrightarrow>
   validateLoop sv ex i (c # cs) st =
   validateLoop sv ex (Suc i) cs (st\<lparr>trace := trace st @ lookups [c]\<rparr>)"
  by (auto simp: passes_def symbolAccepted_def lookups_def Let_def)

lemma validateLoop_Cons_fail:
  "\<not> passes sv ex c \<Longrightarrow> \<exists>e. fst (validateLoop sv ex i (c # cs) st) = Inl e"
  by (auto simp: passes_def symbolAccepted_def Let_def)

lemma validateLoop_prefix:
  "\<forall>c\<in>set pre. passes sv ex c \<Longrightarrow>
   validateLoop sv ex i (pre @ rest) st =
   validateLoop sv ex (i + length pre) rest (st\<lparr>trace := trace st @ lookups pre\<rparr>)"
proof (induction pre arbitrary: i st)
  case Nil
  then show ?case by (simp add: lookups_def)
next
  case (Cons c pre)
  then have c: "passes sv ex c" and pre: "\<forall>c\<in>set pre. passes sv ex c" by simp_all
  have "validateLoop sv ex i ((c # pre) @ rest) st =
        validateLoop sv ex (Suc i) (pre @ rest) (st\<lparr>trace := trace st @ lookups [c]\<rparr>)"
    by (simp only: append_Cons validateLoop_Cons_pass [OF c])
  also have "\<dots> = validateLoop sv ex (Suc i + length pre) rest
        (st\<lparr>trace := trace st @ lookups [c]\<rparr>\<lparr>trace := trace (st\<lparr>trace := trace st @ lookups [c]\<rparr>) @ lookups pre\<rparr>)"
    by (rule Cons.IH [OF pre])
  finally show ?case by (simp add: lookups_def)
qed

lemma validateLoop_persisted:
  "persisted (snd (validateLoop sv ex i cs st)) = persisted st"
  by (induction cs arbitrary: i st) (simp_all add: Let_def)

lemma validateLoop_fails:
  "\<exists>c\<in>set cs. \<not> passes sv ex c \<Longrightarrow> \<exists>e. fst (validateLoop sv ex i cs st) = Inl e"
proof (induction cs arbitrary: i st)
  case Nil
  then show ?case by simp
next
  case (Cons c cs)
  show ?case
  proof (cases "passes sv ex c")
    case True
    with Cons.prems have "\<exists>c\<in>set cs. \<not> passes sv ex c" by auto
    from Cons.IH [OF this] show ?thesis
      by (simp only: validateLoop_Cons_pass [OF True])
  next
    case False
    then show ?thesis by (rule validateLoop_Cons_fail)
  qed
qed

lemma validateLoop_succeeds:
  "fst (validateLoop sv ex i cs st) = Inr u \<Longrightarrow> \<forall>c\<in>set cs. passes sv ex c"
  using validateLoop_fails [of cs sv ex i st] by auto

lemma createLoop_eq:
  "createLoop sv uid cs st =
   st\<lparr>persisted := persisted st @ map (createOrderData sv uid) cs,
      trace := trace st @ map (\<lambda>c. CreateOrder (createOrderData sv uid c)) cs\<rparr>"
  by (induction cs arbitrary: st) (simp_all add: orderService_createOrder_def)

lemma validateOrders_ok:
  assumes "\<forall>c\<in>set pre. \<not> duplicatesExisting sv uid (persisted st) c \<and> symbolAccepted sv c"
  shows "validateOrders sv (pre @ rest) uid st = 
     (if length (pre @ rest) > MAX_ORDERS_TO_IMPORT then (Inl BatchTooLarge, st)
      else validateLoop sv (orderService_orders uid (persisted st)) (length pre) rest
        (st\<lparr>trace := trace st @ OrdersRead uid # lookups pre\<rparr>))"
proof -
  have "\<forall>c\<in>set pre. passes sv (orderService_orders uid (persisted st)) c"
    using assms by (simp add: passes_iff)
  from validateLoop_prefix [OF this] show ?thesis
    by (simp add: validateOrders_def Let_def)
qed



lemma dedupInvariant_append:
  "dedupInvariant (xs @ ys) \<longleftrightarrow>
     dedupInvariant xs \<and> dedupInvariant ys \<and>
     (\<forall>a\<in>set xs. \<forall>b\<in>set ys. \<not> (userId b = userId a \<and> sameDedupTuple a b))"
  by (induction xs) auto

text \<open>
  A symbol that names an inherited member passes the symbol check without an entry in
  the data provider's answer.
\<close>

lemma import_inherited_member_name:
  "\<not> symbolKnown example_services (example_candidate\<lparr>symbol := ''toString''\<rparr>) \<and>
   fst (import example_services [example_candidate\<lparr>symbol := ''toString''\<rparr>] ''u1'' example_empty) =
     Inr ()"
  by (simp add: example_defs symbolKnown_def propertyIsUndefined_def Object_prototype_properties_def
      import_def validateOrders_def orderService_orders_def MAX_ORDERS_TO_IMPORT_def)

section \<open>Order import: properties\<close>

text \<open>
  C1. A batch of at most 20 candidates, none of which duplicates an existing order of
  the user and each of which has its symbol in the data provider's answer, is imported
  whole: \<open>import\<close> succeeds, the order table grows by exactly one record per candidate,
  in the order of the batch, each record carrying the candidate's account and the given
  user, and in the trace every data-provider lookup comes before the first
  \<open>createOrder\<close>.
\<close>

theorem import_valid_batch:
  assumes "length orders \<le> MAX_ORDERS_TO_IMPORT"
    and "\<forall>c\<in>set orders. \<not> duplicatesExisting sv uid (persisted st) c"
    and "\<forall>c\<in>set orders. symbolKnown sv c"
  shows "import sv orders uid st =
     (Inr (),
      st\<lparr>persisted := persisted st @ map (createOrderData sv uid) orders,
         trace := trace st @ OrdersRead uid # lookups orders @
                  map (\<lambda>c. CreateOrder (createOrderData sv uid c)) orders\<rparr>) \<and>
     map accountId (map (createOrderData sv uid) orders) = map accountId orders \<and>
     map userId (map (createOrderData sv uid) orders) = replicate (length orders) uid"
proof -
  have "\<forall>c\<in>set orders. \<not> duplicatesExisting sv uid (persisted st) c \<and> symbolAccepted sv c"
    using assms(2,3) symbolKnown_accepted by blast
  from validateOrders_ok [OF this, of "[]"] assms(1)
  have "validateOrders sv orders uid st = (Inr (), st\<lparr>trace := trace st @ OrdersRead uid # lookups orders\<rparr>)"
    by simp
  then have "import sv orders uid st =
     (Inr (), createLoop sv uid orders (st\<lparr>trace := trace st @ OrdersRead uid # lookups orders\<rparr>))"
    by (simp add: import_def)
  moreover have "map accountId (map (createOrderData sv uid) orders) = map accountId orders"
    by (simp add: createOrderData_def)
  moreover have "map userId (map (createOrderData sv uid) orders) = replicate (length orders) uid"
    by (simp add: createOrderData_def comp_def map_replicate_const)
  ultimately show ?thesis by (simp add: createLoop_eq)
qed

theorem import_valid_batch_witness:
  "import example_services
     [example_candidate\<lparr>symbol := ''MSFT''\<rparr>, example_candidate\<lparr>date := ''2021-07-02''\<rparr>]
     ''u1'' example_state =
     (Inr (),
      \<lparr>persisted =
         [example_existing,
          \<lparr>accountId = ''a1'', currency = ''USD'', dataSource = ''YAHOO'',
           date = Some 1625097600000, fee = 1.5, quantity = 2, symbol = ''MSFT'',
           type = ''BUY'', unitPrice = 130, userId = ''u1''\<rparr>,
          \<lparr>accountId = ''a1'', currency = ''USD'', dataSource = ''YAHOO'',
           date = Some 1625184000000, fee = 1.5, quantity = 2, symbol = ''AAPL'',
           type = ''BUY'', unitPrice = 130, userId = ''u1''\<rparr>],
       trace =
         [OrdersRead ''u1'', DataProviderGet ''YAHOO'' ''MSFT'', DataProviderGet ''YAHOO'' ''AAPL'',
          CreateOrder
            \<lparr>accountId = ''a1'', currency = ''USD'', dataSource = ''YAHOO'',
             date = Some 1625097600000, fee = 1.5, quantity = 2, symbol = ''MSFT'',
             type = ''BUY'', unitPrice = 130, userId = ''u1''\<rparr>,
          CreateOrder
            \<lparr>accountId = ''a1'', currency = ''USD'', dataSource = ''YAHOO'',
             date = Some 1625184000000, fee = 1.5, quantity = 2, symbol = ''AAPL'',
             type = ''BUY'', unitPrice = 130, userId = ''u1''\<rparr>]\<rparr>)"
  using import_valid_batch
    [of "[example_candidate\<lparr>symbol := ''MSFT''\<rparr>, example_candidate\<lparr>date := ''2021-07-02''\<rparr>]"
      example_services "''u1''" example_state]
  by (simp add: MAX_ORDERS_TO_IMPORT_def duplicatesExisting_def sameDedupTuple_def calendarDay_def
      createOrderData_def symbolKnown_def lookups_def example_defs)

text \<open>
  C2. A batch of more than 20 candidates fails with \<open>BatchTooLarge\<close> and leaves the
  state as it was: no record is persisted, and the trace shows neither a read of the
  existing orders nor a data-provider lookup.
\<close>

theorem import_batch_too_large:
  "length orders > MAX_ORDERS_TO_IMPORT \<Longrightarrow> import sv orders uid st = (Inl BatchTooLarge, st)"
  by (simp add: import_def validateOrders_def)

theorem import_batch_too_large_witness:
  "import example_services (replicate 21 example_candidate) ''u1'' example_state =
     (Inl BatchTooLarge, example_state)"
  using import_batch_too_large [of "replicate 21 example_candidate" example_services "''u1''" example_state]
  by (simp add: MAX_ORDERS_TO_IMPORT_def)







text \<open>
  C5, as stated, fails: the same candidate twice in one batch passes the validation,
  which compares the candidates with the orders read up front only, and the two records
  created share the dedup tuple.
\<close>

theorem import_preserves_dedupInvariant_counterexample:
  "dedupInvariant (persisted example_empty) \<and>
   fst (import example_services [example_candidate, example_candidate] ''u1'' example_empty) = Inr () \<and>
   \<not> dedupInvariant
       (persisted (snd (import example_services [example_candidate, example_candidate] ''u1'' example_empty)))"
  by (simp add: example_defs sameDedupTuple_def calendarDay_def createOrderData_def
      propertyIsUndefined_def Object_prototype_properties_def
      import_def validateOrders_def orderService_orders_def orderService_createOrder_def
      MAX_ORDERS_TO_IMPORT_def)

text \<open>
  C5, amended. When the invariant holds before, the import succeeds and the records of
  the batch are pairwise different in the dedup tuple, the invariant holds after.
\<close>

theorem import_preserves_dedupInvariant:
  assumes "dedupInvariant (persisted st)"
    and "import sv orders uid st = (Inr u, st')"
    and "dedupInvariant (map (createOrderData sv uid) orders)"
  shows "dedupInvariant (persisted st')"
proof -
  let ?ex = "orderService_orders uid (persisted st)"
  let ?st1 = "st\<lparr>trace := trace st @ [OrdersRead uid]\<rparr>"
  from assms(2) have len: "\<not> length orders > MAX_ORDERS_TO_IMPORT"
    by (auto simp: import_def validateOrders_def split: if_splits)
  with assms(2) have ok: "fst (validateLoop sv ?ex 0 orders ?st1) = Inr ()"
    and st': "st' = createLoop sv uid orders (snd (validateLoop sv ?ex 0 orders ?st1))"
    by (auto simp: import_def validateOrders_def Let_def split: prod.splits sum.splits)
  from validateLoop_succeeds [OF ok] have "\<forall>c\<in>set orders. passes sv ?ex c" .
  then have nodup: "\<forall>c\<in>set orders. \<not> duplicatesExisting sv uid (persisted st) c"
    by (simp add: passes_iff)
  have p: "persisted st' = persisted st @ map (createOrderData sv uid) orders"
    unfolding st' by (simp add: createLoop_eq validateLoop_persisted)
  have cross: "\<forall>a\<in>set (persisted st). \<forall>b\<in>set (map (createOrderData sv uid) orders).
      \<not> (userId b = userId a \<and> sameDedupTuple a b)"
    using nodup by (auto simp: duplicatesExisting_def createOrderData_def)
  show ?thesis unfolding p dedupInvariant_append using assms(1,3) cross by blast
qed

theorem import_preserves_dedupInvariant_witness:
  "dedupInvariant (persisted example_state) \<and>
   dedupInvariant (persisted (snd (import example_services
      [example_candidate\<lparr>symbol := ''MSFT''\<rparr>, example_candidate\<lparr>date := ''2021-07-02''\<rparr>] ''u1'' example_state))) \<and>
   length (persisted (snd (import example_services
      [example_candidate\<lparr>symbol := ''MSFT''\<rparr>, example_candidate\<lparr>date := ''2021-07-02''\<rparr>] ''u1'' example_state))) = 3"
  using import_preserves_dedupInvariant [of example_state example_services
      "[example_candidate\<lparr>symbol := ''MSFT''\<rparr>, example_candidate\<lparr>date := ''2021-07-02''\<rparr>]" "''u1''" "()"
      "snd (import example_services
      [example_candidate\<lparr>symbol := ''MSFT''\<rparr>, example_candidate\<lparr>date := ''2021-07-02''\<rparr>] ''u1'' example_state)"]
  by (simp add: example_defs sameDedupTuple_def calendarDay_def createOrderData_def
      propertyIsUndefined_def Object_prototype_properties_def
      import_def validateOrders_def orderService_orders_def orderService_createOrder_def
      isDuplicateOf_def isSameDay_def startOfDay_def
      MAX_ORDERS_TO_IMPORT_def)

section \<open>Info service: lemmas\<close>

lemma getStatistics_off:
  "\<not> ENABLE_FEATURE_STATISTICS conf \<Longrightarrow> getStatistics conf w = (None, w)"
  by (simp add: getStatistics_def)

lemma getStatistics_hit:
  "ENABLE_FEATURE_STATISTICS conf \<Longrightarrow> cache w CACHE_KEY_STATISTICS = Some v \<Longrightarrow>
   JSON_parse_statistics w v = Truthy s \<Longrightarrow>
   getStatistics conf w = (Some s, called (CacheGet CACHE_KEY_STATISTICS) w)"
  by (simp add: getStatistics_def redisCacheService_get_def called_def)

lemma getStatistics_recompute:
  assumes "ENABLE_FEATURE_STATISTICS conf"
    and "\<forall>v s. cache w CACHE_KEY_STATISTICS = Some v \<longrightarrow> JSON_parse_statistics w v \<noteq> Truthy s"
  shows "getStatistics conf w =
     (Some (recomputed w),
      w\<lparr>cache := (cache w)(CACHE_KEY_STATISTICS \<mapsto> JSON_stringify w (recomputed w)),
        errorLog := errorLog w @ gitHubErrors w,
        calls := calls w @ recomputeCalls w\<rparr>)"
proof -
  have "(case cache w CACHE_KEY_STATISTICS of None \<Rightarrow> Falsy | Some v \<Rightarrow> JSON_parse_statistics w v) = Falsy \<or>
        (case cache w CACHE_KEY_STATISTICS of None \<Rightarrow> Falsy | Some v \<Rightarrow> JSON_parse_statistics w v) = Throws"
    using assms(2) by (cases "cache w CACHE_KEY_STATISTICS"; simp) (metis parsed.exhaust)
  then show ?thesis
    using assms(1)
    by (auto simp: getStatistics_def redisCacheService_get_def redisCacheService_set_def
        countActiveUsers_def countNewUsers_def countGitHubContributors_def countGitHubStargazers_def
        Logger_error_def called_def Let_def recomputed_def gitHubErrors_def recomputeCalls_def
        split: response.splits option.splits)
qed

lemma getStatistics_cases:
  "getStatistics conf w = (None, w) \<and> \<not> ENABLE_FEATURE_STATISTICS conf \<or>
   (\<exists>s w'. getStatistics conf w = (Some s, w') \<and> ENABLE_FEATURE_STATISTICS conf \<and>
      propertyTable w' = propertyTable w \<and> JSON_parse_subscription w' = JSON_parse_subscription w)"
proof (cases "ENABLE_FEATURE_STATISTICS conf")
  case False
  then show ?thesis by (simp add: getStatistics_off)
next
  case True
  show ?thesis
  proof (cases "\<forall>v s. cache w CACHE_KEY_STATISTICS = Some v \<longrightarrow> JSON_parse_statistics w v \<noteq> Truthy s")
    case True
    from getStatistics_recompute [OF \<open>ENABLE_FEATURE_STATISTICS conf\<close> this] \<open>ENABLE_FEATURE_STATISTICS conf\<close>
    show ?thesis by simp
  next
    case False
    then obtain v s where "cache w CACHE_KEY_STATISTICS = Some v" "JSON_parse_statistics w v = Truthy s"
      by blast
    from getStatistics_hit [OF True this] True show ?thesis by (simp add: called_def)
  qed
qed

lemma getStatistics_conf:
  "ENABLE_FEATURE_STATISTICS conf' = ENABLE_FEATURE_STATISTICS conf \<Longrightarrow>
   getStatistics conf' w = getStatistics conf w"
  by (simp add: getStatistics_def)

lemma fst_getSubscriptions:
  "fst (getSubscriptions conf w) =
     (if \<not> ENABLE_FEATURE_SUBSCRIPTION conf then Inr None
      else case propertyTable w ''STRIPE_CONFIG'' of
             None \<Rightarrow> Inr (Some [])
           | Some v \<Rightarrow> (case JSON_parse_subscription w v of
                          None \<Rightarrow> Inl SyntaxError | Some s \<Rightarrow> Inr (Some [s])))"
  by (simp add: getSubscriptions_def called_def Let_def split: option.splits)

lemma fst_get:
  "fst (get conf w) =
     (case fst (getSubscriptions conf w) of
        Inl e \<Rightarrow> Inl e
      | Inr subs \<Rightarrow>
          Inr \<lparr>stripePublicKey =
                 (if ENABLE_FEATURE_SUBSCRIPTION conf then Some (STRIPE_PUBLIC_KEY conf) else None),
               globalPermissions = permissionsOf conf,
               platforms = platformTable w,
               currencies = exchangeRateDataService_getCurrencies w,
               demoAuthToken = getDemoAuthToken w,
               lastDataGathering = getLastDataGathering w,
               primaryDataSource = dataProviderService_getPrimaryDataSource w,
               statistics = fst (getStatistics conf (called PlatformFindMany w)),
               subscriptions = subs\<rparr>)"
proof -
  let ?w0 = "called PlatformFindMany w"
  obtain st w1 where gs: "getStatistics conf ?w0 = (st, w1)" by (cases "getStatistics conf ?w0")
  have same: "propertyTable w1 = propertyTable w" "JSON_parse_subscription w1 = JSON_parse_subscription w"
    using getStatistics_cases [of conf ?w0] gs by (auto simp: called_def)
  have sub: "fst (getSubscriptions conf w1) = fst (getSubscriptions conf w)"
    by (simp only: fst_getSubscriptions same)
  obtain r w2 where gsub: "getSubscriptions conf w1 = (r, w2)" by (cases "getSubscriptions conf w1")
  with sub have r: "fst (getSubscriptions conf w) = r" by simp
  have ro: "platformTable ?w0 = platformTable w"
    "exchangeRateDataService_getCurrencies ?w0 = exchangeRateDataService_getCurrencies w"
    "getDemoAuthToken ?w0 = getDemoAuthToken w"
    "getLastDataGathering ?w0 = getLastDataGathering w"
    "dataProviderService_getPrimaryDataSource ?w0 = dataProviderService_getPrimaryDataSource w"
    by (simp_all add: called_def getDemoAuthToken_def getLastDataGathering_def)
  show ?thesis
    unfolding r
    by (cases r) (simp_all add: get_def Let_def gs gsub ro permissionsOf_def)
qed

lemma permissionsOf_filter_toggle:
  "filter (\<lambda>p. p \<noteq> permissionOf f) (permissionsOf (toggle f conf)) =
   filter (\<lambda>p. p \<noteq> permissionOf f) (permissionsOf conf)"
  by (cases f) (simp_all add: permissionsOf_def)

lemma permissionOf_in_permissionsOf:
  "(permissionOf f \<in> set (permissionsOf conf)) = flagValue f conf"
  by (cases f) (simp_all add: permissionsOf_def)

lemma flagValue_toggle: "flagValue f (toggle f conf) = (\<not> flagValue f conf)"
  by (cases f) simp_all

lemma getSubscriptions_Inr:
  "fst (getSubscriptions c w) = Inr subs \<Longrightarrow> (subs \<noteq> None) = ENABLE_FEATURE_SUBSCRIPTION c"
  by (auto simp: fst_getSubscriptions split: if_splits option.splits)

lemma toggle_other:
  "f \<noteq> Statistics \<Longrightarrow> ENABLE_FEATURE_STATISTICS (toggle f conf) = ENABLE_FEATURE_STATISTICS conf"
  "f \<noteq> Subscription \<Longrightarrow> ENABLE_FEATURE_SUBSCRIPTION (toggle f conf) = ENABLE_FEATURE_SUBSCRIPTION conf"
  "STRIPE_PUBLIC_KEY (toggle f conf) = STRIPE_PUBLIC_KEY conf"
  by (cases f, simp_all)+

lemma get_toggle_outcomes:
  "case (fst (get conf w), fst (get (toggle f conf) w)) of
     (Inr i, Inr i') \<Rightarrow>
       platforms i' = platforms i \<and> currencies i' = currencies i \<and>
       demoAuthToken i' = demoAuthToken i \<and> lastDataGathering i' = lastDataGathering i \<and>
       primaryDataSource i' = primaryDataSource i \<and>
       filter (\<lambda>p. p \<noteq> permissionOf f) (globalPermissions i') =
         filter (\<lambda>p. p \<noteq> permissionOf f) (globalPermissions i) \<and>
       (permissionOf f \<in> set (globalPermissions i)) = flagValue f conf \<and>
       (permissionOf f \<in> set (globalPermissions i')) = (\<not> flagValue f conf) \<and>
       (if f = Statistics
        then (statistics i \<noteq> None) = flagValue f conf \<and> (statistics i' \<noteq> None) = (\<not> flagValue f conf)
        else statistics i' = statistics i) \<and>
       (if f = Subscription
        then (stripePublicKey i \<noteq> None) = flagValue f conf \<and>
             (stripePublicKey i' \<noteq> None) = (\<not> flagValue f conf) \<and>
             (subscriptions i \<noteq> None) = flagValue f conf \<and>
             (subscriptions i' \<noteq> None) = (\<not> flagValue f conf)
        else stripePublicKey i' = stripePublicKey i \<and> subscriptions i' = subscriptions i)
   | (Inl e, Inl e') \<Rightarrow> e' = e
   | _ \<Rightarrow> f = Subscription"
proof -
  let ?w0 = "called PlatformFindMany w"
  let ?c' = "toggle f conf"
  have stat_same: "fst (getStatistics ?c' ?w0) = fst (getStatistics conf ?w0)"
    if "f \<noteq> Statistics"
    using that getStatistics_conf [of ?c' conf ?w0] by (simp add: toggle_other)
  have stat_diff: "(fst (getStatistics c ?w0) \<noteq> None) = ENABLE_FEATURE_STATISTICS c" for c
    using getStatistics_cases [of c ?w0] by auto
  have sub_same: "fst (getSubscriptions ?c' w) = fst (getSubscriptions conf w)"
    if "f \<noteq> Subscription"
    using that by (simp add: fst_getSubscriptions toggle_other)
  obtain r r' where r: "fst (getSubscriptions conf w) = r" and r': "fst (getSubscriptions ?c' w) = r'"
    by simp
  show ?thesis
  proof (cases r)
    case (Inl e)
    show ?thesis
    proof (cases r')
      case (Inl e')
      have ge: "fst (get conf w) = Inl e" by (simp add: fst_get r \<open>r = Inl e\<close>)
      have ge': "fst (get ?c' w) = Inl e'" by (simp add: fst_get r' Inl)
      show ?thesis unfolding ge ge' by (cases e; cases e') simp
    next
      case (Inr subs')
      with \<open>r = Inl e\<close> r r' sub_same have fs: "f = Subscription" by auto
      have ge: "fst (get conf w) = Inl e" by (simp add: fst_get r \<open>r = Inl e\<close>)
      obtain i' where ge': "fst (get ?c' w) = Inr i'" by (simp add: fst_get r' Inr)
      show ?thesis unfolding ge ge' using fs by simp
    qed
  next
    case (Inr subs)
    show ?thesis
    proof (cases r')
      case (Inl e')
      with \<open>r = Inr subs\<close> r r' sub_same have fs: "f = Subscription" by auto
      obtain i where ge: "fst (get conf w) = Inr i" by (simp add: fst_get r \<open>r = Inr subs\<close>)
      have ge': "fst (get ?c' w) = Inl e'" by (simp add: fst_get r' Inl)
      show ?thesis unfolding ge ge' using fs by simp
    next
      case (Inr subs')
      have s1: "(subs \<noteq> None) = ENABLE_FEATURE_SUBSCRIPTION conf"
        using getSubscriptions_Inr [of conf w subs] r \<open>r = Inr subs\<close> by simp
      have s2: "(subs' \<noteq> None) = ENABLE_FEATURE_SUBSCRIPTION ?c'"
        using getSubscriptions_Inr [of ?c' w subs'] r' Inr by simp
      have s3: "f \<noteq> Subscription \<Longrightarrow> subs' = subs"
        using sub_same r r' Inr \<open>r = Inr subs\<close> by simp
      have g: "fst (get conf w) = Inr
          \<lparr>stripePublicKey =
             (if ENABLE_FEATURE_SUBSCRIPTION conf then Some (STRIPE_PUBLIC_KEY conf) else None),
           globalPermissions = permissionsOf conf,
           platforms = platformTable w,
           currencies = exchangeRateDataService_getCurrencies w,
           demoAuthToken = getDemoAuthToken w,
           lastDataGathering = getLastDataGathering w,
           primaryDataSource = dataProviderService_getPrimaryDataSource w,
           statistics = fst (getStatistics conf ?w0),
           subscriptions = subs\<rparr>"
        by (simp add: fst_get r \<open>r = Inr subs\<close>)
      have g': "fst (get ?c' w) = Inr
          \<lparr>stripePublicKey =
             (if ENABLE_FEATURE_SUBSCRIPTION ?c' then Some (STRIPE_PUBLIC_KEY ?c') else None),
           globalPermissions = permissionsOf ?c',
           platforms = platformTable w,
           currencies = exchangeRateDataService_getCurrencies w,
           demoAuthToken = getDemoAuthToken w,
           lastDataGathering = getLastDataGathering w,
           primaryDataSource = dataProviderService_getPrimaryDataSource w,
           statistics = fst (getStatistics ?c' ?w0),
           subscriptions = subs'\<rparr>"
        by (simp add: fst_get r' Inr)
      have p1: "filter (\<lambda>p. p \<noteq> permissionOf f) (permissionsOf ?c') =
          filter (\<lambda>p. p \<noteq> permissionOf f) (permissionsOf conf)"
        by (rule permissionsOf_filter_toggle)
      have p2: "(permissionOf f \<in> set (permissionsOf conf)) = flagValue f conf"
        by (rule permissionOf_in_permissionsOf)
      have p3: "(permissionOf f \<in> set (permissionsOf ?c')) = (\<not> flagValue f conf)"
        by (simp only: permissionOf_in_permissionsOf flagValue_toggle)
      have st: "if f = Statistics
          then (fst (getStatistics conf ?w0) \<noteq> None) = flagValue f conf \<and>
               (fst (getStatistics ?c' ?w0) \<noteq> None) = (\<not> flagValue f conf)
          else fst (getStatistics ?c' ?w0) = fst (getStatistics conf ?w0)"
      proof (cases "f = Statistics")
        case True
        then show ?thesis using stat_diff [of conf] stat_diff [of ?c'] by simp
      next
        case False
        then show ?thesis using stat_same by simp
      qed
      have sb: "if f = Subscription
          then ((if ENABLE_FEATURE_SUBSCRIPTION conf then Some (STRIPE_PUBLIC_KEY conf) else None) \<noteq> None) =
                 flagValue f conf \<and>
               ((if ENABLE_FEATURE_SUBSCRIPTION ?c' then Some (STRIPE_PUBLIC_KEY ?c') else None) \<noteq> None) =
                 (\<not> flagValue f conf) \<and>
               (subs \<noteq> None) = flagValue f conf \<and> (subs' \<noteq> None) = (\<not> flagValue f conf)
          else (if ENABLE_FEATURE_SUBSCRIPTION ?c' then Some (STRIPE_PUBLIC_KEY ?c') else None) =
                 (if ENABLE_FEATURE_SUBSCRIPTION conf then Some (STRIPE_PUBLIC_KEY conf) else None) \<and>
               subs' = subs"
      proof (cases "f = Subscription")
        case True
        then show ?thesis using s1 s2 by simp
      next
        case False
        then show ?thesis using s3 by (simp add: toggle_other)
      qed
      show ?thesis
        unfolding g g' prod.case sum.case infoItem.simps
        by (intro conjI refl p1 p2 p3 st sb)
    qed
  qed
qed

section \<open>Info service: properties\<close>

text \<open>
  C6. With the statistics flag on and no cache entry under the key, \<open>getStatistics\<close>
  computes the six counters, stores the serialised result under the key as its last call
  and returns it; called again on the resulting world, it returns the same statistics and
  its only call is the cache read. \<open>JSON.parse\<close> is taken to read back what
  \<open>JSON.stringify\<close> wrote for the returned statistics.
\<close>

theorem statistics_cache_aside:
  assumes "ENABLE_FEATURE_STATISTICS conf"
    and "cache w CACHE_KEY_STATISTICS = None"
    and "getStatistics conf w = (r, w1)"
    and "\<forall>s. r = Some s \<longrightarrow> JSON_parse_statistics w (JSON_stringify w s) = Truthy s"
  shows "\<exists>s. r = Some s \<and>
     s = \<lparr>activeUsers1d = activeUserCount w 1, activeUsers7d = activeUserCount w 7,
          activeUsers30d = activeUserCount w 30,
          gitHubContributors = fst (countGitHubContributors w),
          gitHubStargazers = fst (countGitHubStargazers w),
          newUsers30d = newUserCount w 30\<rparr> \<and>
     cache w1 = (cache w)(CACHE_KEY_STATISTICS \<mapsto> JSON_stringify w s) \<and>
     calls w1 = calls w @
       [CacheGet CACHE_KEY_STATISTICS, UserCountActive 1, UserCountActive 7, UserCountActive 30,
        UserCountNew 30, GitHubGet contributorsUrl, GitHubGet repositoryUrl,
        CacheSet CACHE_KEY_STATISTICS (JSON_stringify w s)] \<and>
     getStatistics conf w1 = (Some s, w1\<lparr>calls := calls w1 @ [CacheGet CACHE_KEY_STATISTICS]\<rparr>)"
proof -
  have miss: "\<forall>v s. cache w CACHE_KEY_STATISTICS = Some v \<longrightarrow> JSON_parse_statistics w v \<noteq> Truthy s"
    using assms(2) by simp
  from getStatistics_recompute [OF assms(1) miss] assms(3)
  have r: "r = Some (recomputed w)"
    and w1: "w1 = w\<lparr>cache := (cache w)(CACHE_KEY_STATISTICS \<mapsto> JSON_stringify w (recomputed w)),
        errorLog := errorLog w @ gitHubErrors w, calls := calls w @ recomputeCalls w\<rparr>"
    by simp_all
  from assms(4) r have rt: "JSON_parse_statistics w (JSON_stringify w (recomputed w)) = Truthy (recomputed w)"
    by simp
  have c1: "cache w1 CACHE_KEY_STATISTICS = Some (JSON_stringify w (recomputed w))"
    by (simp add: w1)
  have p1: "JSON_parse_statistics w1 = JSON_parse_statistics w"
    by (simp add: w1)
  have "getStatistics conf w1 = (Some (recomputed w), called (CacheGet CACHE_KEY_STATISTICS) w1)"
    by (rule getStatistics_hit [OF assms(1) c1]) (simp add: p1 rt)
  then show ?thesis
    using r by (simp add: w1 called_def recomputed_def recomputeCalls_def)
qed

theorem statistics_cache_aside_witness:
  "fst (getStatistics example_conf example_world) = Some example_statistics \<and>
   cache (snd (getStatistics example_conf example_world)) CACHE_KEY_STATISTICS = Some ''S'' \<and>
   getStatistics example_conf (snd (getStatistics example_conf example_world)) =
     (Some example_statistics,
      (snd (getStatistics example_conf example_world))
        \<lparr>calls := calls (snd (getStatistics example_conf example_world)) @
           [CacheGet CACHE_KEY_STATISTICS]\<rparr>)"
proof -
  have r: "getStatistics example_conf example_world =
      (Some example_statistics,
       example_world\<lparr>cache := [CACHE_KEY_STATISTICS \<mapsto> ''S''], errorLog := [''timeout''],
         calls := [CacheGet CACHE_KEY_STATISTICS, UserCountActive 1, UserCountActive 7,
           UserCountActive 30, UserCountNew 30, GitHubGet contributorsUrl,
           GitHubGet repositoryUrl, CacheSet CACHE_KEY_STATISTICS ''S'']\<rparr>)"
    by (simp add: getStatistics_def redisCacheService_get_def redisCacheService_set_def
        countActiveUsers_def countNewUsers_def countGitHubContributors_def
        countGitHubStargazers_def Logger_error_def called_def Let_def example_info_defs)
  have h1: "ENABLE_FEATURE_STATISTICS example_conf" by (simp add: example_conf_def)
  have h2: "cache example_world CACHE_KEY_STATISTICS = None" by (simp add: example_world_def)
  have h4: "\<forall>s. Some example_statistics = Some s \<longrightarrow>
      JSON_parse_statistics example_world (JSON_stringify example_world s) = Truthy s"
    by (simp add: example_world_def)
  have js: "JSON_stringify example_world example_statistics = ''S''"
    "cache example_world = Map.empty" "calls example_world = []"
    by (simp_all add: example_world_def)
  from statistics_cache_aside [OF h1 h2 r h4] show ?thesis
    by (simp add: r js)
qed

text \<open>
  C7, as stated, fails: the cached string \<open>null\<close> parses, to null, and
  \<open>getStatistics\<close> does not return it but recomputes.
\<close>

theorem statistics_cache_read_counterexample:
  "cache (example_world\<lparr>cache := [CACHE_KEY_STATISTICS \<mapsto> ''null'']\<rparr>) CACHE_KEY_STATISTICS =
     Some ''null'' \<and>
   JSON_parse_statistics (example_world\<lparr>cache := [CACHE_KEY_STATISTICS \<mapsto> ''null'']\<rparr>) ''null'' =
     Falsy \<and>
   fst (getStatistics example_conf (example_world\<lparr>cache := [CACHE_KEY_STATISTICS \<mapsto> ''null'']\<rparr>)) =
     Some example_statistics \<and>
   calls (snd (getStatistics example_conf
       (example_world\<lparr>cache := [CACHE_KEY_STATISTICS \<mapsto> ''null'']\<rparr>))) =
     [CacheGet CACHE_KEY_STATISTICS, UserCountActive 1, UserCountActive 7, UserCountActive 30,
      UserCountNew 30, GitHubGet contributorsUrl, GitHubGet repositoryUrl,
      CacheSet CACHE_KEY_STATISTICS ''S'']"
  by (simp add: getStatistics_def redisCacheService_get_def redisCacheService_set_def
      countActiveUsers_def countNewUsers_def countGitHubContributors_def
      countGitHubStargazers_def Logger_error_def called_def Let_def example_info_defs)

text \<open>
  C7, amended. With the statistics flag on: when the cached string parses to a truthy
  value, \<open>getStatistics\<close> returns that value and its only call is the cache read; when
  the cache has no entry, or parsing throws, or the parsed value is falsy, nothing is
  raised and \<open>getStatistics\<close> returns statistics computed from the six counters.
\<close>

theorem statistics_cache_read:
  assumes "ENABLE_FEATURE_STATISTICS conf"
  shows "(\<forall>v s. cache w CACHE_KEY_STATISTICS = Some v \<and> JSON_parse_statistics w v = Truthy s \<longrightarrow>
        getStatistics conf w = (Some s, w\<lparr>calls := calls w @ [CacheGet CACHE_KEY_STATISTICS]\<rparr>)) \<and>
     (cache w CACHE_KEY_STATISTICS = None \<or>
      (\<exists>v. cache w CACHE_KEY_STATISTICS = Some v \<and>
           (JSON_parse_statistics w v = Throws \<or> JSON_parse_statistics w v = Falsy)) \<longrightarrow>
      (\<exists>s w'. getStatistics conf w = (Some s, w') \<and>
         activeUsers1d s = activeUserCount w 1 \<and> activeUsers7d s = activeUserCount w 7 \<and>
         activeUsers30d s = activeUserCount w 30 \<and> newUsers30d s = newUserCount w 30 \<and>
         gitHubContributors s = fst (countGitHubContributors w) \<and>
         gitHubStargazers s = fst (countGitHubStargazers w) \<and>
         calls w' = calls w @
           [CacheGet CACHE_KEY_STATISTICS, UserCountActive 1, UserCountActive 7,
            UserCountActive 30, UserCountNew 30, GitHubGet contributorsUrl,
            GitHubGet repositoryUrl, CacheSet CACHE_KEY_STATISTICS (JSON_stringify w s)]))"
proof (intro conjI allI impI)
  fix v s
  assume "cache w CACHE_KEY_STATISTICS = Some v \<and> JSON_parse_statistics w v = Truthy s"
  then show "getStatistics conf w = (Some s, w\<lparr>calls := calls w @ [CacheGet CACHE_KEY_STATISTICS]\<rparr>)"
    using getStatistics_hit [OF assms, of w v s] by (simp add: called_def)
next
  assume "cache w CACHE_KEY_STATISTICS = None \<or>
      (\<exists>v. cache w CACHE_KEY_STATISTICS = Some v \<and>
           (JSON_parse_statistics w v = Throws \<or> JSON_parse_statistics w v = Falsy))"
  then have "\<forall>v s. cache w CACHE_KEY_STATISTICS = Some v \<longrightarrow> JSON_parse_statistics w v \<noteq> Truthy s"
    by auto
  from getStatistics_recompute [OF assms this]
  show "\<exists>s w'. getStatistics conf w = (Some s, w') \<and>
         activeUsers1d s = activeUserCount w 1 \<and> activeUsers7d s = activeUserCount w 7 \<and>
         activeUsers30d s = activeUserCount w 30 \<and> newUsers30d s = newUserCount w 30 \<and>
         gitHubContributors s = fst (countGitHubContributors w) \<and>
         gitHubStargazers s = fst (countGitHubStargazers w) \<and>
         calls w' = calls w @
           [CacheGet CACHE_KEY_STATISTICS, UserCountActive 1, UserCountActive 7,
            UserCountActive 30, UserCountNew 30, GitHubGet contributorsUrl,
            GitHubGet repositoryUrl, CacheSet CACHE_KEY_STATISTICS (JSON_stringify w s)]"
    by (simp add: recomputed_def recomputeCalls_def)
qed

theorem statistics_cache_read_witness:
  "getStatistics example_conf (example_world\<lparr>cache := [CACHE_KEY_STATISTICS \<mapsto> ''S'']\<rparr>) =
     (Some example_statistics,
      example_world\<lparr>cache := [CACHE_KEY_STATISTICS \<mapsto> ''S''],
        calls := [CacheGet CACHE_KEY_STATISTICS]\<rparr>) \<and>
   (\<exists>s w'. getStatistics example_conf (example_world\<lparr>cache := [CACHE_KEY_STATISTICS \<mapsto> ''{'']\<rparr>) =
       (Some s, w') \<and> activeUsers7d s = 8 \<and> length (calls w') = 8)"
proof -
  have h: "ENABLE_FEATURE_STATISTICS example_conf" by (simp add: example_conf_def)
  have a: "getStatistics example_conf (example_world\<lparr>cache := [CACHE_KEY_STATISTICS \<mapsto> ''S'']\<rparr>) =
     (Some example_statistics,
      example_world\<lparr>cache := [CACHE_KEY_STATISTICS \<mapsto> ''S''],
        calls := [CacheGet CACHE_KEY_STATISTICS]\<rparr>)"
    using statistics_cache_read [OF h, of "example_world\<lparr>cache := [CACHE_KEY_STATISTICS \<mapsto> ''S'']\<rparr>"]
    by (simp add: example_world_def)
  have b: "\<exists>s w'. getStatistics example_conf (example_world\<lparr>cache := [CACHE_KEY_STATISTICS \<mapsto> ''{'']\<rparr>) =
       (Some s, w') \<and> activeUsers7d s = 8 \<and> length (calls w') = 8"
    using statistics_cache_read [OF h, of "example_world\<lparr>cache := [CACHE_KEY_STATISTICS \<mapsto> ''{'']\<rparr>"]
    by (auto simp: example_world_def)
  from a b show ?thesis by blast
qed

text \<open>
  C8. On the recomputation path, whatever the two GitHub requests do, \<open>getStatistics\<close>
  returns statistics with the four database counts. A rejected request for the
  contributors makes \<open>countGitHubContributors\<close> return \<open>undefined\<close> after logging
  the error, and the statistics have no contributors count and the log has the error; the
  same holds of the request for the repository and the stargazers count.
\<close>

theorem gitHub_failures_tolerated:
  assumes "ENABLE_FEATURE_STATISTICS conf"
    and "\<forall>v s. cache w CACHE_KEY_STATISTICS = Some v \<longrightarrow> JSON_parse_statistics w v \<noteq> Truthy s"
  shows "\<exists>s w'. getStatistics conf w = (Some s, w') \<and>
     activeUsers1d s = activeUserCount w 1 \<and> activeUsers7d s = activeUserCount w 7 \<and>
     activeUsers30d s = activeUserCount w 30 \<and> newUsers30d s = newUserCount w 30 \<and>
     (\<forall>e. gitHubContributorsResponse w = Rejected e \<longrightarrow>
        countGitHubContributors w = (None, Logger_error e (called (GitHubGet contributorsUrl) w)) \<and>
        gitHubContributors s = None \<and> e \<in> set (errorLog w')) \<and>
     (\<forall>e. gitHubRepositoryResponse w = Rejected e \<longrightarrow>
        countGitHubStargazers w = (None, Logger_error e (called (GitHubGet repositoryUrl) w)) \<and>
        gitHubStargazers s = None \<and> e \<in> set (errorLog w'))"
proof -
  have a: "countGitHubContributors w = (None, Logger_error e (called (GitHubGet contributorsUrl) w))"
    if "gitHubContributorsResponse w = Rejected e" for e
    using that by (simp add: countGitHubContributors_def called_def)
  have b: "countGitHubStargazers w = (None, Logger_error e (called (GitHubGet repositoryUrl) w))"
    if "gitHubRepositoryResponse w = Rejected e" for e
    using that by (simp add: countGitHubStargazers_def called_def)
  show ?thesis
    unfolding getStatistics_recompute [OF assms]
    using a b by (auto simp: recomputed_def gitHubErrors_def)
qed

theorem gitHub_failures_tolerated_witness:
  "\<exists>s w'. getStatistics example_conf example_world = (Some s, w') \<and>
     activeUsers1d s = 3 \<and> activeUsers7d s = 8 \<and> activeUsers30d s = 21 \<and> newUsers30d s = 5 \<and>
     gitHubStargazers s = None \<and> ''timeout'' \<in> set (errorLog w')"
proof -
  have h1: "ENABLE_FEATURE_STATISTICS example_conf" by (simp add: example_conf_def)
  have h2: "\<forall>v s. cache example_world CACHE_KEY_STATISTICS = Some v \<longrightarrow>
      JSON_parse_statistics example_world v \<noteq> Truthy s"
    by (simp add: example_world_def)
  have h3: "gitHubRepositoryResponse example_world = Rejected ''timeout''"
    by (simp add: example_world_def)
  from gitHub_failures_tolerated [OF h1 h2] obtain s w' where
    "getStatistics example_conf example_world = (Some s, w')"
    "activeUsers1d s = activeUserCount example_world 1"
    "activeUsers7d s = activeUserCount example_world 7"
    "activeUsers30d s = activeUserCount example_world 30"
    "newUsers30d s = newUserCount example_world 30"
    "\<forall>e. gitHubRepositoryResponse example_world = Rejected e \<longrightarrow>
        countGitHubStargazers example_world =
          (None, Logger_error e (called (GitHubGet repositoryUrl) example_world)) \<and>
        gitHubStargazers s = None \<and> e \<in> set (errorLog w')"
    by blast
  then show ?thesis using h3 by (auto simp: example_world_def)
qed

text \<open>
  C9, as stated, fails: with the flag on and a record whose value is not JSON,
  \<open>JSON.parse\<close> throws and \<open>getSubscriptions\<close> fails with the SyntaxError; its
  result is no list.
\<close>

theorem subscriptions_three_way_counterexample:
  "ENABLE_FEATURE_SUBSCRIPTION example_conf \<and>
   propertyTable (example_world\<lparr>propertyTable := [''STRIPE_CONFIG'' \<mapsto> ''{oops'']\<rparr>) ''STRIPE_CONFIG'' =
     Some ''{oops'' \<and>
   fst (getSubscriptions example_conf
     (example_world\<lparr>propertyTable := [''STRIPE_CONFIG'' \<mapsto> ''{oops'']\<rparr>)) = Inl SyntaxError"
  by (simp add: getSubscriptions_def called_def example_info_defs)

text \<open>
  C9, amended. With the subscription flag off the result is left out (\<open>undefined\<close>);
  with the flag on and no record under \<open>STRIPE_CONFIG\<close> it is the empty list; with
  the flag on and a record whose value parses it is the one-element list of the parsed
  value.
\<close>

theorem subscriptions_three_way:
  "(\<not> ENABLE_FEATURE_SUBSCRIPTION conf \<longrightarrow> getSubscriptions conf w = (Inr None, w)) \<and>
   (ENABLE_FEATURE_SUBSCRIPTION conf \<and> propertyTable w ''STRIPE_CONFIG'' = None \<longrightarrow>
      getSubscriptions conf w =
        (Inr (Some []), w\<lparr>calls := calls w @ [PropertyFindUnique ''STRIPE_CONFIG'']\<rparr>)) \<and>
   (\<forall>v s. ENABLE_FEATURE_SUBSCRIPTION conf \<and> propertyTable w ''STRIPE_CONFIG'' = Some v \<and>
      JSON_parse_subscription w v = Some s \<longrightarrow>
      getSubscriptions conf w =
        (Inr (Some [s]), w\<lparr>calls := calls w @ [PropertyFindUnique ''STRIPE_CONFIG'']\<rparr>))"
  by (simp add: getSubscriptions_def called_def)

theorem subscriptions_three_way_witness:
  "getSubscriptions (example_conf\<lparr>ENABLE_FEATURE_SUBSCRIPTION := False\<rparr>) example_world =
     (Inr None, example_world) \<and>
   getSubscriptions example_conf (example_world\<lparr>propertyTable := Map.empty\<rparr>) =
     (Inr (Some []),
      example_world\<lparr>propertyTable := Map.empty, calls := [PropertyFindUnique ''STRIPE_CONFIG'']\<rparr>) \<and>
   getSubscriptions example_conf example_world =
     (Inr (Some [''plan'']), example_world\<lparr>calls := [PropertyFindUnique ''STRIPE_CONFIG'']\<rparr>)"
  using subscriptions_three_way [of "example_conf\<lparr>ENABLE_FEATURE_SUBSCRIPTION := False\<rparr>" example_world]
    subscriptions_three_way [of example_conf "example_world\<lparr>propertyTable := Map.empty\<rparr>"]
    subscriptions_three_way [of example_conf example_world]
  by (simp add: example_info_defs)

text \<open>
  C10, as stated, fails: on a world whose \<open>STRIPE_CONFIG\<close> record does not parse,
  with the subscription flag on, \<open>get\<close> fails under the configuration and under the
  configuration with the blog flag switched; there are no two info objects.
\<close>

theorem info_flag_frame_counterexample:
  "fst (get example_conf
     (example_world\<lparr>propertyTable := [''STRIPE_CONFIG'' \<mapsto> ''{oops'']\<rparr>)) = Inl SyntaxError \<and>
   fst (get (toggle Blog example_conf)
     (example_world\<lparr>propertyTable := [''STRIPE_CONFIG'' \<mapsto> ''{oops'']\<rparr>)) = Inl SyntaxError"
  by (simp add: get_def getSubscriptions_def getStatistics_def redisCacheService_get_def
      redisCacheService_set_def countActiveUsers_def countNewUsers_def
      countGitHubContributors_def countGitHubStargazers_def Logger_error_def called_def
      Let_def getDemoAuthToken_def getLastDataGathering_def example_info_defs)

text \<open>
  C10, amended. Take a configuration, the configuration with one flag switched, and a
  world in which, if the subscription flag is on in either of the two, the
  \<open>STRIPE_CONFIG\<close> record is absent or its value parses. Then \<open>get\<close> returns an
  info object under both configurations, and the two objects agree on platforms,
  currencies, demo token, last data gathering and primary data source; their permission
  lists are equal once the flag's tag is removed, and the tag is in exactly the list of
  the run that has the flag on; the statistics are equal unless the flag is the
  statistics flag, in which case they are present in exactly the run that has it on; the
  Stripe key and the subscriptions are equal unless the flag is the subscription flag, in
  which case both are present in exactly the run that has it on.
\<close>

theorem info_flag_frame:
  assumes "ENABLE_FEATURE_SUBSCRIPTION conf \<or> f = Subscription \<longrightarrow>
     (\<forall>v. propertyTable w ''STRIPE_CONFIG'' = Some v \<longrightarrow> JSON_parse_subscription w v \<noteq> None)"
  shows "\<exists>i i'. fst (get conf w) = Inr i \<and> fst (get (toggle f conf) w) = Inr i' \<and>
       platforms i' = platforms i \<and> currencies i' = currencies i \<and>
       demoAuthToken i' = demoAuthToken i \<and> lastDataGathering i' = lastDataGathering i \<and>
       primaryDataSource i' = primaryDataSource i \<and>
       filter (\<lambda>p. p \<noteq> permissionOf f) (globalPermissions i') =
         filter (\<lambda>p. p \<noteq> permissionOf f) (globalPermissions i) \<and>
       (permissionOf f \<in> set (globalPermissions i)) = flagValue f conf \<and>
       (permissionOf f \<in> set (globalPermissions i')) = (\<not> flagValue f conf) \<and>
       (if f = Statistics
        then (statistics i \<noteq> None) = flagValue f conf \<and> (statistics i' \<noteq> None) = (\<not> flagValue f conf)
        else statistics i' = statistics i) \<and>
       (if f = Subscription
        then (stripePublicKey i \<noteq> None) = flagValue f conf \<and>
             (stripePublicKey i' \<noteq> None) = (\<not> flagValue f conf) \<and>
             (subscriptions i \<noteq> None) = flagValue f conf \<and>
             (subscriptions i' \<noteq> None) = (\<not> flagValue f conf)
        else stripePublicKey i' = stripePublicKey i \<and> subscriptions i' = subscriptions i)"
proof -
  have returns: "\<exists>i. fst (get c w) = Inr i"
    if "ENABLE_FEATURE_SUBSCRIPTION c \<longrightarrow>
      (\<forall>v. propertyTable w ''STRIPE_CONFIG'' = Some v \<longrightarrow> JSON_parse_subscription w v \<noteq> None)" for c
  proof -
    have "\<exists>subs. fst (getSubscriptions c w) = Inr subs"
      using that by (auto simp: fst_getSubscriptions split: option.splits)
    then show ?thesis by (auto simp: fst_get)
  qed
  have on: "ENABLE_FEATURE_SUBSCRIPTION (toggle f conf) \<longrightarrow>
      ENABLE_FEATURE_SUBSCRIPTION conf \<or> f = Subscription"
    by (cases f) simp_all
  obtain i where i: "fst (get conf w) = Inr i"
    using returns [of conf] assms by blast
  obtain i' where i': "fst (get (toggle f conf) w) = Inr i'"
    using returns [of "toggle f conf"] assms on by blast
  note frame = get_toggle_outcomes [where conf = conf and w = w and f = f,
      unfolded i i' prod.case sum.case]
  from i i' frame show ?thesis by blast
qed

theorem info_flag_frame_witness:
  "fst (get example_conf example_world) =
     Inr \<lparr>stripePublicKey = Some ''pk_test'',
          globalPermissions = [enableBlog, enableSocialLogin, enableStatistics, enableSubscription],
          platforms = [(''p1'', ''Degiro''), (''p2'', ''Swissquote'')],
          currencies = [''CHF'', ''USD''], demoAuthToken = ''signed'' @ DEMO_USER_ID,
          lastDataGathering = None, primaryDataSource = ''YAHOO'',
          statistics = Some example_statistics, subscriptions = Some [''plan'']\<rparr> \<and>
   fst (get (toggle Statistics example_conf) example_world) =
     Inr \<lparr>stripePublicKey = Some ''pk_test'',
          globalPermissions = [enableBlog, enableSocialLogin, enableSubscription],
          platforms = [(''p1'', ''Degiro''), (''p2'', ''Swissquote'')],
          currencies = [''CHF'', ''USD''], demoAuthToken = ''signed'' @ DEMO_USER_ID,
          lastDataGathering = None, primaryDataSource = ''YAHOO'',
          statistics = None, subscriptions = Some [''plan'']\<rparr>"
  using info_flag_frame [where f = Statistics and conf = example_conf and w = example_world]
  by (simp add: get_def getSubscriptions_def getStatistics_def redisCacheService_get_def
      redisCacheService_set_def countActiveUsers_def countNewUsers_def
      countGitHubContributors_def countGitHubStargazers_def Logger_error_def called_def
      Let_def getDemoAuthToken_def getLastDataGathering_def example_info_defs)

end
